theory Spec2Isabelle
  imports Complex_Main "HOL-Library.Sublist" "HOL-Library.AList"
begin

section \<open>Errors\<close>

text \<open>
  Every \<open>raise\<close> of the modelled code and every exception of the interpreter or the
  operating system that the modelled code can meet is a value of this type. The first five
  are the \<open>RuntimeError\<close>s of \<open>unpack_wl.py\<close>, told apart by their message.
\<close>

datatype error =
    UnknownPakFile string          \<comment> \<open>\<open>RuntimeError("Unknown pak file: ...")\<close>\<close>
  | FilenameWithoutPrefix          \<comment> \<open>\<open>RuntimeError("Found filename without knowing prefix")\<close>\<close>
  | UnexpectedFilename string      \<comment> \<open>\<open>RuntimeError("Unexpected filename extracted: ...")\<close>\<close>
  | CountMismatch nat nat          \<comment> \<open>\<open>RuntimeError("Expected {total} files, only found {n}")\<close>\<close>
  | CouldNotDeleteTemp             \<comment> \<open>\<open>RuntimeError("Could not delete temporary folder ...")\<close>\<close>
  | UnboundLocalError              \<comment> \<open>a local variable read before any assignment\<close>
  | OverflowError                  \<comment> \<open>an \<open>int\<close> too large to convert to \<open>float\<close>\<close>
  | FileNotFoundError
  | NotADirectoryError
  | FileExistsError
  | OSError                        \<comment> \<open>an error of the operating system of another or of any kind\<close>

section \<open>Strings and the regular expressions of \<open>unpack_wl.py\<close>\<close>

text \<open>
  Python strings are modelled as \<^typ>\<open>string\<close> (lists of characters), read as ASCII text.
  The character classes of the \<open>re\<close> module are written out for ASCII:
  \<open>\w\<close> is a letter, a digit or the underscore, \<open>\d\<close> is a digit, \<open>\s\<close> is one of the
  ASCII whitespace characters (codes 9 to 13, 28 to 32), and \<open>.\<close> is every character but
  the line feed.
\<close>

definition newline :: char where
  "newline = CHR 0x0A"

definition word_char :: "char \<Rightarrow> bool" where
  "word_char c =
     (let n = (of_char c :: nat)
      in (48 \<le> n \<and> n \<le> 57) \<or> (65 \<le> n \<and> n \<le> 90) \<or> n = 95 \<or> (97 \<le> n \<and> n \<le> 122))"

definition digit_char :: "char \<Rightarrow> bool" where
  "digit_char c = (let n = (of_char c :: nat) in 48 \<le> n \<and> n \<le> 57)"

definition space_char :: "char \<Rightarrow> bool" where
  "space_char c = (let n = (of_char c :: nat) in (9 \<le> n \<and> n \<le> 13) \<or> (28 \<le> n \<and> n \<le> 32))"

definition dot_char :: "char \<Rightarrow> bool" where
  "dot_char c = (c \<noteq> newline)"

text \<open>
  The tail \<open>(?P<lastpart>.*)\s*$\<close> of both normalisation patterns: the greedy \<open>.*\<close> takes
  every character up to the first line feed, and the match succeeds when whatever follows
  is whitespace only. The result is the group \<open>lastpart\<close>.
\<close>

definition match_lastpart :: "string \<Rightarrow> string option" where
  "match_lastpart s =
     (if list_all space_char (dropWhile dot_char s) then Some (takeWhile dot_char s) else None)"

text \<open>
  \<open>re_normalize_plugins = ^(?P<firstpart>\w+)/Plugins/(?P<lastpart>.*)\s*$\<close>, used with
  \<open>match\<close>. The result is \<open>(firstpart, lastpart)\<close>.
\<close>

definition re_normalize_plugins :: "string \<Rightarrow> (string \<times> string) option" where
  "re_normalize_plugins s =
     (let firstpart = takeWhile word_char s; r = dropWhile word_char s
      in if firstpart \<noteq> [] \<and> prefix ''/Plugins/'' r
         then map_option (\<lambda>lastpart. (firstpart, lastpart)) (match_lastpart (drop 9 r))
         else None)"

text \<open>
  \<open>re_normalize_content = ^(?P<junk>.*/)?(?P<firstpart>\w+)/Content/(?P<lastpart>.*)\s*$\<close>.
  \<open>content_at\<close> is the part after the optional group, matched at the start of its
  argument. \<open>content_junk\<close> is the pattern with the group \<open>junk\<close> taking part: the greedy
  \<open>.*\<close> of the group is tried from its longest extent downwards, so the group ends at the
  last slash after which the rest of the pattern matches. Only when no such slash exists is
  the pattern tried without the group. The result is \<open>(junk, firstpart, lastpart)\<close>.
\<close>

definition content_at :: "string \<Rightarrow> (string \<times> string) option" where
  "content_at s =
     (let firstpart = takeWhile word_char s; r = dropWhile word_char s
      in if firstpart \<noteq> [] \<and> prefix ''/Content/'' r
         then map_option (\<lambda>lastpart. (firstpart, lastpart)) (match_lastpart (drop 9 r))
         else None)"

fun content_junk :: "string \<Rightarrow> (string \<times> string \<times> string) option" where
  "content_junk [] = None"
| "content_junk (c # cs) =
     (if \<not> dot_char c then None
      else case content_junk cs of
             Some (junk, firstpart, lastpart) \<Rightarrow> Some (c # junk, firstpart, lastpart)
           | None \<Rightarrow>
               (if c = CHR ''/''
                then map_option (\<lambda>(firstpart, lastpart). ([c], firstpart, lastpart)) (content_at cs)
                else None))"

definition re_normalize_content :: "string \<Rightarrow> (string \<times> string \<times> string) option" where
  "re_normalize_content s =
     (case content_junk s of
        Some m \<Rightarrow> Some m
      | None \<Rightarrow> map_option (\<lambda>(firstpart, lastpart). ([], firstpart, lastpart)) (content_at s))"

section \<open>Case fixes\<close>

text \<open>
  \<open>class CaseFix\<close>. The names of a rule are put into a regular expression as they are; the
  model covers rules whose names have no regular-expression metacharacter, as the one rule
  of the source, so that the names match themselves. \<open>apply\<close> is \<open>re.sub\<close> with a pattern
  anchored at both ends: a file rule rewrites \<open>dir/from.ext\<close> with \<open>ext\<close> in \<open>\w+\<close>, a
  directory rule rewrites \<open>dir/from/remaining\<close>; \<open>$\<close> also matches before a final line
  feed, which is then kept.
\<close>

record CaseFix =
  dir_name :: string
  from_name :: string
  to_name :: string
  directory :: bool

definition strip_final_newline :: "string \<Rightarrow> string \<times> string" where
  "strip_final_newline s =
     (if s \<noteq> [] \<and> last s = newline then (butlast s, [newline]) else (s, []))"

definition CaseFix_apply :: "CaseFix \<Rightarrow> string \<Rightarrow> string" where
  "CaseFix_apply fix filename =
     (let (body, nl) = strip_final_newline filename
      in if directory fix
         then (let pre = dir_name fix @ ''/'' @ from_name fix @ ''/''
               in if prefix pre body \<and> list_all dot_char (drop (length pre) body)
                  then dir_name fix @ ''/'' @ to_name fix @ ''/'' @ drop (length pre) body @ nl
                  else filename)
         else (let pre = dir_name fix @ ''/'' @ from_name fix @ ''.'';
                   ext = drop (length pre) body
               in if prefix pre body \<and> ext \<noteq> [] \<and> list_all word_char ext
                  then dir_name fix @ ''/'' @ to_name fix @ ''.'' @ ext @ nl
                  else filename))"

definition hardcoded_path_fixes :: "CaseFix list" where
  "hardcoded_path_fixes =
     [\<lparr>dir_name = ''Game/Maps/Dungeons/Boss/Climb'', from_name = ''D_Boss_Climb_P'',
       to_name = ''D_Boss_Climb_p'', directory = False\<rparr>]"

definition apply_fixes :: "CaseFix list \<Rightarrow> string \<Rightarrow> string" where
  "apply_fixes fixes real_filename = foldl (\<lambda>name fix. CaseFix_apply fix name) real_filename fixes"

section \<open>Path normalisation\<close>

text \<open>\<open>PakFile.content_firstpart_overrides\<close>.\<close>

definition content_firstpart_overrides :: "(string \<times> string) list" where
  "content_firstpart_overrides = [(''OakGame'', ''Game''), (''Wwise'', ''WwiseEditor'')]"

text \<open>
  The body of \<open>get_filename_mapping\<close> that turns \<open>real_filename\<close> (mount point followed by the
  listed name) into the final name, in its three steps: the plugin rewrite, the content
  rewrite (an \<open>if\<close> of its own, run on the outcome of the first), the case fixes.
\<close>

definition plugin_rewrite :: "string \<Rightarrow> string" where
  "plugin_rewrite real_filename =
     (case re_normalize_plugins real_filename of
        Some (firstpart, lastpart) \<Rightarrow> lastpart
      | None \<Rightarrow> real_filename)"

definition content_rewrite :: "string \<Rightarrow> string" where
  "content_rewrite real_filename =
     (case re_normalize_content real_filename of
        Some (junk, firstpart, lastpart) \<Rightarrow>
          (case map_of content_firstpart_overrides firstpart of
             Some firstpart' \<Rightarrow> firstpart' @ ''/'' @ lastpart
           | None \<Rightarrow> firstpart @ ''/'' @ lastpart)
      | None \<Rightarrow> real_filename)"

definition normalize_filename :: "string \<Rightarrow> string" where
  "normalize_filename real_filename =
     apply_fixes hardcoded_path_fixes (content_rewrite (plugin_rewrite real_filename))"


section \<open>Archive descriptors\<close>

subsection \<open>The file name pattern\<close>

text \<open>
  \<open>re_pak = ^(?P<dir_prefix>.*[/\\])?pakchunk(?P<datagroup>\d+)(?P<optional>optional)?\<close>
  \<open>-WindowsNoEditor(_(?P<patchnum>\d+)_P)?\.pak$\<close>, used with \<open>match\<close>.
  \<open>pak_name\<close> is the pattern from \<open>pakchunk\<close> on. No backtracking can change its groups:
  the digits are followed by a letter or a hyphen, \<open>optional\<close> by a hyphen, and the patch
  group starts with an underscore where otherwise a dot must stand. \<open>$\<close> matches at the end
  or before a final line feed. The result is \<open>(datagroup, optional, patchnum)\<close>, the
  groups as strings, \<open>None\<close> for a group that took no part.
\<close>

definition patch_suffix :: "string \<Rightarrow> (string option \<times> string)" where
  "patch_suffix s =
     (if prefix ''_'' s
      then (let digits = takeWhile digit_char (drop 1 s); r = dropWhile digit_char (drop 1 s)
            in if digits \<noteq> [] \<and> prefix ''_P'' r then (Some digits, drop 2 r) else (None, s))
      else (None, s))"

definition pak_name :: "string \<Rightarrow> (string \<times> bool \<times> string option) option" where
  "pak_name s =
     (if prefix ''pakchunk'' s
      then (let datagroup = takeWhile digit_char (drop 8 s);
                r = dropWhile digit_char (drop 8 s);
                optional = prefix ''optional'' r;
                r' = (if optional then drop 8 r else r)
            in if datagroup \<noteq> [] \<and> prefix ''-WindowsNoEditor'' r'
               then (let (patchnum, r'') = patch_suffix (drop 16 r')
                     in if r'' = ''.pak'' \<or> r'' = ''.pak'' @ [newline]
                        then Some (datagroup, optional, patchnum)
                        else None)
               else None)
      else None)"

text \<open>
  The group \<open>dir_prefix\<close>: nothing that \<open>pak_name\<close> accepts holds a slash or a backslash,
  so the group, when it takes part, ends at the last of them in the string, and it cannot
  be left out when there is one. The \<open>.*\<close> of the group does not pass a line feed.
\<close>

definition is_sep :: "char \<Rightarrow> bool" where
  "is_sep c = (c = CHR ''/'' \<or> c = CHR 0x5C)"

definition basename_part :: "string \<Rightarrow> string" where
  "basename_part s = rev (takeWhile (\<lambda>c. \<not> is_sep c) (rev s))"

definition re_pak :: "string \<Rightarrow> (string option \<times> string \<times> bool \<times> string option) option" where
  "re_pak s =
     (let name = basename_part s; dir_prefix = take (length s - length name) s
      in if dir_prefix = []
         then map_option (\<lambda>g. (None, g)) (pak_name name)
         else if list_all dot_char dir_prefix
              then map_option (\<lambda>g. (Some dir_prefix, g)) (pak_name name)
              else None)"

subsection \<open>Numbers\<close>

text \<open>
  \<open>int\<close> of a string of decimal digits. Python integers are unbounded; the limit that
  newer interpreters put on the number of digits of such a string (4300 by default) is not
  modelled.
\<close>

definition digit_value :: "char \<Rightarrow> int" where
  "digit_value c = of_char c - 48"

definition int_of_digits :: "string \<Rightarrow> int" where
  "int_of_digits s = foldl (\<lambda>n c. 10 * n + digit_value c) 0 s"

text \<open>
  \<open>self.paknum += 0.5\<close> turns the integer into a \<open>float\<close>, an IEEE double. The values met
  here are non-negative halves of integers, so that the arithmetic is written out on
  integers: \<open>round53\<close> rounds a non-negative integer to 53 significant bits, to nearest,
  ties to the even significand. Converting the integer \<open>n\<close> gives \<open>round53 n\<close> and raises
  \<open>OverflowError\<close> from \<open>2 ^ 1024\<close> on; adding one half to the integer-valued double \<open>k\<close>
  gives the half of \<open>round53 (2 * k + 1)\<close>.
\<close>

function bit_length :: "int \<Rightarrow> nat" where
  "bit_length n = (if n \<le> 0 then 0 else Suc (bit_length (n div 2)))"
  by pat_completeness auto
termination
  by (relation "measure nat") auto

declare bit_length.simps [simp del]

definition round53 :: "int \<Rightarrow> int" where
  "round53 m =
     (let e = bit_length m
      in if e \<le> 53 then m
         else (let sh = e - 53; q = m div 2 ^ sh; r = m mod 2 ^ sh; h = 2 ^ (sh - 1)
               in (if r > h \<or> (r = h \<and> odd q) then q + 1 else q) * 2 ^ sh))"

definition float_of_int :: "int \<Rightarrow> error + int" where
  "float_of_int n = (if round53 n \<ge> 2 ^ 1024 then Inl OverflowError else Inr (round53 n))"

definition float_add_half :: "int \<Rightarrow> rat" where
  "float_add_half k = of_int (round53 (2 * k + 1)) / 2"

subsection \<open>\<open>class PakFile\<close> of \<open>unpack_wl.py\<close>\<close>

text \<open>
  \<open>paknum\<close> is an \<open>int\<close> or a \<open>float\<close>; both are read as the rational number they stand
  for, which is how Python compares and hashes numbers of the two types. \<open>__init__\<close>
  ends with \<open>os.stat\<close> on the file; what the file system answers is the argument
  \<open>stat_size\<close>: the size of the file, or \<open>None\<close> when there is no such file.
\<close>

record PakFile =
  filename :: string
  paknum :: rat
  patchnum :: int
  size :: nat

definition audio_nums :: "int set" where
  "audio_nums = {2, 3, 48, 49, 50, 51, 52, 53}"

definition PakFile_init :: "nat option \<Rightarrow> string \<Rightarrow> error + PakFile" where
  "PakFile_init stat_size name =
     (case re_pak name of
        None \<Rightarrow> Inl (UnknownPakFile name)
      | Some (dir_prefix, datagroup, optional, patch) \<Rightarrow>
          (case (if optional
                 then (case float_of_int (int_of_digits datagroup) of
                         Inl e \<Rightarrow> Inl e
                       | Inr k \<Rightarrow> Inr (float_add_half k))
                 else Inr (of_int (int_of_digits datagroup))) of
             Inl e \<Rightarrow> Inl e
           | Inr num \<Rightarrow>
               (let pnum = (case patch of Some p \<Rightarrow> int_of_digits p | None \<Rightarrow> - 1)
                in case stat_size of
                     None \<Rightarrow> Inl FileNotFoundError
                   | Some sz \<Rightarrow>
                       Inr \<lparr>filename = name, paknum = num, patchnum = pnum, size = sz\<rparr>)))"

definition is_audio_only :: "PakFile \<Rightarrow> bool" where
  "is_audio_only pf = (\<exists>k\<in>audio_nums. paknum pf = of_int k)"

text \<open>
  \<open>__lt__\<close>: the comparison of the tuples \<open>(paknum, patchnum)\<close>, which is decided by the
  first component where the two differ.
\<close>

definition PakFile_lt :: "PakFile \<Rightarrow> PakFile \<Rightarrow> bool" where
  "PakFile_lt self other =
     (paknum self < paknum other
      \<or> (paknum self = paknum other \<and> patchnum self < patchnum other))"

subsection \<open>\<open>class PakFile\<close> of \<open>paksort.py\<close>\<close>

text \<open>
  The sorting utility has a class of its own. Its pattern is \<open>pak_name\<close> (no directory
  prefix; a name that does not match raises \<open>Exception\<close> with the message of
  \<open>UnknownPakFile\<close>), it stores the patch number plus one, and zero where there is no patch
  group, and
  it computes \<open>order_num = paknum * 10000 + patchnum\<close>, in integers, or in doubles when
  \<open>paknum\<close> is one: there a product or sum that leaves the range of the doubles is
  infinite (\<open>None\<close>), and the conversion of a too large \<open>patchnum\<close> raises.
\<close>

record PakSortFile =
  ps_filename :: string
  ps_paknum :: rat
  ps_patchnum :: int
  ps_order_num :: "rat option"

definition float_or_inf :: "int \<Rightarrow> int option" where
  "float_or_inf v = (if round53 v \<ge> 2 ^ 1024 then None else Some (round53 v))"

definition paksort_init :: "string \<Rightarrow> error + PakSortFile" where
  "paksort_init name =
     (case pak_name name of
        None \<Rightarrow> Inl (UnknownPakFile name)
      | Some (datagroup, optional, patch) \<Rightarrow>
          (let n = int_of_digits datagroup;
               pnum = (case patch of Some p \<Rightarrow> int_of_digits p + 1 | None \<Rightarrow> 0)
           in if optional
              then (case float_of_int n of
                      Inl e \<Rightarrow> Inl e
                    | Inr k \<Rightarrow>
                        (case float_of_int pnum of
                           Inl e \<Rightarrow> Inl e
                         | Inr fp \<Rightarrow>
                             Inr \<lparr>ps_filename = name, ps_paknum = float_add_half k,
                                  ps_patchnum = pnum,
                                  ps_order_num =
                                    (case float_or_inf (round53 (2 * k + 1) * 5000) of
                                       None \<Rightarrow> None
                                     | Some scaled \<Rightarrow> map_option of_int (float_or_inf (scaled + fp)))\<rparr>))
              else Inr \<lparr>ps_filename = name, ps_paknum = of_int n, ps_patchnum = pnum,
                        ps_order_num = Some (of_int (n * 10000 + pnum))\<rparr>))"

definition paksort_lt :: "PakSortFile \<Rightarrow> PakSortFile \<Rightarrow> bool" where
  "paksort_lt self other =
     (ps_paknum self < ps_paknum other
      \<or> (ps_paknum self = ps_paknum other \<and> ps_patchnum self < ps_patchnum other))"

section \<open>Reading the output of the archive tool\<close>

text \<open>
  \<open>launch_unrealpak\<close> starts the external tool; the loops of \<open>get_filename_mapping\<close> and
  \<open>extract\<close> then read its standard output line by line until it ends. The model starts
  there: the lines that the tool wrote are an argument, a list of strings.

  A pattern used with \<open>search\<close> is tried at every position of the line from the left;
  \<open>re_search m\<close> does so for the match \<open>m\<close> at the start of a string. \<open>first_split\<close> and
  \<open>last_split\<close> cut a string at the first and at the last occurrence of a literal.
\<close>

fun re_search :: "(string \<Rightarrow> 'a option) \<Rightarrow> string \<Rightarrow> 'a option" where
  "re_search m [] = m []"
| "re_search m (c # cs) = (case m (c # cs) of Some r \<Rightarrow> Some r | None \<Rightarrow> re_search m cs)"

fun first_split :: "string \<Rightarrow> string \<Rightarrow> (string \<times> string) option" where
  "first_split lit [] = (if lit = [] then Some ([], []) else None)"
| "first_split lit (c # cs) =
     (if prefix lit (c # cs) then Some ([], drop (length lit) (c # cs))
      else map_option (\<lambda>(before, after). (c # before, after)) (first_split lit cs))"

fun last_split :: "string \<Rightarrow> string \<Rightarrow> (string \<times> string) option" where
  "last_split lit [] = (if lit = [] then Some ([], []) else None)"
| "last_split lit (c # cs) =
     (case last_split lit cs of
        Some (before, after) \<Rightarrow> Some (c # before, after)
      | None \<Rightarrow> if prefix lit (c # cs) then Some ([], drop (length lit) (c # cs)) else None)"

definition dquote :: char where
  "dquote = CHR 0x22"

text \<open>
  \<open>re_unpack_mount = Display: Mount point (?P<mountpoint>.*)$\<close>: the group runs to the end
  of the line, or to the line feed that ends it.
\<close>

definition unpack_mount_at :: "string \<Rightarrow> string option" where
  "unpack_mount_at s =
     (if prefix ''Display: Mount point '' s
      then (let r = drop 21 s
            in if dropWhile dot_char r = [] \<or> dropWhile dot_char r = [newline]
               then Some (takeWhile dot_char r) else None)
      else None)"

definition re_unpack_mount :: "string \<Rightarrow> string option" where
  "re_unpack_mount line = re_search unpack_mount_at line"

text \<open>
  \<open>re_unpack_file = Display: "(?P<filename>.*)" offset\<close>: the greedy group ends at the last
  \<open>" offset\<close> before the end of the line.
\<close>

definition unpack_file_at :: "string \<Rightarrow> string option" where
  "unpack_file_at s =
     (if prefix (''Display: '' @ [dquote]) s
      then map_option fst (last_split (dquote # '' offset'') (takeWhile dot_char (drop 10 s)))
      else None)"

definition re_unpack_file :: "string \<Rightarrow> string option" where
  "re_unpack_file line = re_search unpack_file_at line"

text \<open>
  \<open>re_extract = Display: Extracted "(?P<filename>.*?)" to \<close>: the lazy group ends at the
  first \<open>" to \<close> before the end of the line.
\<close>

definition extract_at :: "string \<Rightarrow> string option" where
  "extract_at s =
     (if prefix (''Display: Extracted '' @ [dquote]) s
      then map_option fst (first_split (dquote # '' to '') (takeWhile dot_char (drop 20 s)))
      else None)"

definition re_extract :: "string \<Rightarrow> string option" where
  "re_extract line = re_search extract_at line"

section \<open>Listing an archive\<close>

text \<open>
  \<open>PakFile.get_filename_mapping\<close>. The local variable \<open>mountpoint\<close> is declared before the
  loop (\<open>mountpoint: str\<close>) and first assigned by a mount line; the state \<open>None\<close> is the
  variable without a value, and reading it then raises \<open>UnboundLocalError\<close>. That happens
  in the test \<open>mountpoint is None\<close>, which for a variable with a value is never true, so the
  \<open>RuntimeError\<close> under it is never raised. The dictionary keeps its keys in the order of
  their first insertion, as \<open>AList.update\<close> does.
\<close>

definition strip_mountpoint :: "string \<Rightarrow> string" where
  "strip_mountpoint mountpoint =
     (if prefix ''../../../'' mountpoint then drop 9 mountpoint
      else if mountpoint = ''/'' then [] else mountpoint)"

fun listing_loop ::
  "string option \<Rightarrow> (string \<times> string) list \<Rightarrow> string list \<Rightarrow> error + (string \<times> string) list"
where
  "listing_loop mountpoint filename_mapping [] = Inr filename_mapping"
| "listing_loop mountpoint filename_mapping (line # lines) =
     (case re_unpack_mount line of
        Some m \<Rightarrow> listing_loop (Some (strip_mountpoint m)) filename_mapping lines
      | None \<Rightarrow>
          (case re_unpack_file line of
             Some name \<Rightarrow>
               (case mountpoint of
                  None \<Rightarrow> Inl UnboundLocalError
                | Some mp \<Rightarrow>
                    listing_loop mountpoint
                      (AList.update name (normalize_filename (mp @ name)) filename_mapping) lines)
           | None \<Rightarrow> listing_loop mountpoint filename_mapping lines))"

definition get_filename_mapping :: "string list \<Rightarrow> error + (string \<times> string) list" where
  "get_filename_mapping lines = listing_loop None [] lines"

section \<open>Extracting an archive\<close>

text \<open>
  \<open>PakFile.extract\<close>. \<open>expected_filenames\<close> is \<open>None\<close> or a collection, here a list; in a
  condition it counts as true when it is a non-empty collection, which \<open>truthy\<close> gives.
  The progress lines that the loop prints depend on the clock and are left out; the result
  is what the last \<open>print\<close> shows, \<open>files_unpacked\<close> and \<open>total_files\<close>.
\<close>

definition truthy :: "string list option \<Rightarrow> string list option" where
  "truthy expected_filenames =
     (case expected_filenames of Some (x # xs) \<Rightarrow> Some (x # xs) | _ \<Rightarrow> None)"

fun extract_loop :: "string list option \<Rightarrow> string list \<Rightarrow> nat \<Rightarrow> error + nat" where
  "extract_loop expected_filenames [] files_unpacked = Inr files_unpacked"
| "extract_loop expected_filenames (line # lines) files_unpacked =
     (case re_extract line of
        Some name \<Rightarrow>
          (case truthy expected_filenames of
             Some expected \<Rightarrow>
               if name \<notin> set expected then Inl (UnexpectedFilename name)
               else extract_loop expected_filenames lines (files_unpacked + 1)
           | None \<Rightarrow> extract_loop expected_filenames lines (files_unpacked + 1))
      | None \<Rightarrow> extract_loop expected_filenames lines files_unpacked)"

definition PakFile_extract :: "string list option \<Rightarrow> string list \<Rightarrow> error + (nat \<times> nat option)" where
  "PakFile_extract expected_filenames lines =
     (let total_files = map_option length (truthy expected_filenames)
      in case extract_loop expected_filenames lines 0 of
           Inl e \<Rightarrow> Inl e
         | Inr files_unpacked \<Rightarrow>
             (case total_files of
                Some total_n \<Rightarrow>
                  if total_n \<noteq> 0
                  then (if files_unpacked \<noteq> total_n
                        then Inl (CountMismatch total_n files_unpacked)
                        else Inr (files_unpacked, total_files))
                  else Inr (files_unpacked, total_files)
              | None \<Rightarrow> Inr (files_unpacked, total_files)))"

text \<open>The number of extraction confirmations among the lines of the tool.\<close>

definition confirmations :: "string list \<Rightarrow> nat" where
  "confirmations lines = length (filter (\<lambda>line. re_extract line \<noteq> None) lines)"

subsection \<open>Lines of tool output\<close>


definition summary_line :: string where
  "summary_line = ''LogPakFile: Display: Extracted 5 files'' @ [newline]"

definition file_line :: "string \<Rightarrow> string" where
  "file_line name =
     ''LogPakFile: Display: '' @ [dquote] @ name @ [dquote]
       @ '' offset: 0, size: 12 bytes'' @ [newline]"

definition mount_line :: "string \<Rightarrow> string" where
  "mount_line mountpoint = ''LogPakFile: Display: Mount point '' @ mountpoint @ [newline]"


section \<open>The file system\<close>

text \<open>
  The merge works on the disk through \<open>os\<close>, \<open>os.path\<close> and \<open>shutil\<close>. The disk is a tree
  of directories and files without links, on one device, with every operation permitted;
  the working directory is its root, and the path separator is the slash. A position in
  the tree is the list of the names that lead to it from the root.
\<close>

datatype fsnode = File string | Dir "(string \<times> fsnode) list"

fun lookup :: "fsnode \<Rightarrow> string list \<Rightarrow> fsnode option" where
  "lookup node [] = Some node"
| "lookup (File content) (n # p) = None"
| "lookup (Dir entries) (n # p) =
     (case map_of entries n of None \<Rightarrow> None | Some child \<Rightarrow> lookup child p)"

definition is_dir_at :: "fsnode \<Rightarrow> string list \<Rightarrow> bool" where
  "is_dir_at fs p = (case lookup fs p of Some (Dir entries) \<Rightarrow> True | _ \<Rightarrow> False)"


fun store_at :: "fsnode \<Rightarrow> string list \<Rightarrow> fsnode \<Rightarrow> fsnode"
  and store_entries ::
    "(string \<times> fsnode) list \<Rightarrow> string \<Rightarrow> string list \<Rightarrow> fsnode \<Rightarrow> (string \<times> fsnode) list"
where
  "store_at old [] new = new"
| "store_at (File content) (n # p) new = File content"
| "store_at (Dir entries) (n # p) new = Dir (store_entries entries n p new)"
| "store_entries [] n p new = (if p = [] then [(n, new)] else [])"
| "store_entries ((k, child) # entries) n p new =
     (if k = n then (k, store_at child p new) # entries
      else (k, child) # store_entries entries n p new)"

text \<open>Two nodes are of the same kind when both are files or both are directories.\<close>

fun same_kind :: "fsnode \<Rightarrow> fsnode \<Rightarrow> bool" where
  "same_kind (File a) (File b) = True"
| "same_kind (Dir a) (Dir b) = True"
| "same_kind a b = False"

subsection \<open>Path names\<close>

text \<open>
  \<open>split_path\<close> cuts a path name at its slashes. \<open>walk\<close> follows the segments from a
  position as the system does: an empty segment and \<open>.\<close> stay, \<open>..\<close> goes up (the root is
  its own parent), a name goes to the entry of that name; each step needs a directory to
  start from. \<open>resolve\<close> gives the position that a path name leads to, or the error of
  the system: \<open>FileNotFoundError\<close> for a name that is not there and for the empty path
  name, \<open>NotADirectoryError\<close> where the path goes through a file.
\<close>

fun split_path :: "string \<Rightarrow> string list" where
  "split_path [] = [[]]"
| "split_path (c # cs) =
     (if c = CHR ''/'' then [] # split_path cs
      else (case split_path cs of [] \<Rightarrow> [[c]] | seg # segs \<Rightarrow> (c # seg) # segs))"

fun walk :: "fsnode \<Rightarrow> string list \<Rightarrow> string list \<Rightarrow> error + string list" where
  "walk fs cur [] = (if lookup fs cur = None then Inl FileNotFoundError else Inr cur)"
| "walk fs cur (s # segs) =
     (if lookup fs cur = None then Inl FileNotFoundError
      else if \<not> is_dir_at fs cur then Inl NotADirectoryError
      else if s = [] \<or> s = ''.'' then walk fs cur segs
      else if s = ''..'' then walk fs (butlast cur) segs
      else if lookup fs (cur @ [s]) = None then Inl FileNotFoundError
      else walk fs (cur @ [s]) segs)"

definition resolve :: "fsnode \<Rightarrow> string \<Rightarrow> error + string list" where
  "resolve fs path = (if path = [] then Inl FileNotFoundError else walk fs [] (split_path path))"

text \<open>\<open>os.path.exists\<close> and \<open>os.path.isdir\<close>: an error of the system makes them false.\<close>

definition path_exists :: "fsnode \<Rightarrow> string \<Rightarrow> bool" where
  "path_exists fs path = (case resolve fs path of Inr p \<Rightarrow> True | Inl e \<Rightarrow> False)"


text \<open>\<open>os.path.join\<close>, \<open>os.path.dirname\<close> and \<open>os.path.basename\<close> of \<open>posixpath\<close>.\<close>

definition path_join :: "string \<Rightarrow> string \<Rightarrow> string" where
  "path_join a b =
     (if prefix ''/'' b then b
      else if a = [] \<or> last a = CHR ''/'' then a @ b
      else a @ ''/'' @ b)"




subsection \<open>Operations of \<open>os\<close> and \<open>shutil\<close>\<close>






section \<open>Merging the staging directory\<close>

text \<open>
  \<open>delete_empty_dirs\<close>. \<open>os.listdir\<close> raises for a folder that does not resolve or is a
  file, and \<open>os.rmdir\<close> cannot remove the root. The recursion goes down the tree under
  \<open>folder\<close>:
  \<open>delete_empty_entries\<close> is the loop over \<open>os.listdir(folder)\<close>, which leaves a file where
  it is and calls the function on a directory, and its result is what is left in
  \<open>file_set\<close>; \<open>delete_empty_node\<close> is a call with \<open>delete_root\<close> left at \<open>True\<close>, whose
  result \<open>None\<close> stands for the directory removed and \<open>True\<close> returned.
\<close>

fun delete_empty_node :: "fsnode \<Rightarrow> fsnode option"
  and delete_empty_entries :: "(string \<times> fsnode) list \<Rightarrow> (string \<times> fsnode) list"
where
  "delete_empty_node (File content) = Some (File content)"
| "delete_empty_node (Dir entries) =
     (let file_set = delete_empty_entries entries
      in if file_set = [] then None else Some (Dir file_set))"
| "delete_empty_entries [] = []"
| "delete_empty_entries ((name, File content) # entries) =
     (name, File content) # delete_empty_entries entries"
| "delete_empty_entries ((name, Dir sub) # entries) =
     (case delete_empty_node (Dir sub) of
        None \<Rightarrow> delete_empty_entries entries
      | Some node \<Rightarrow> (name, node) # delete_empty_entries entries)"




section \<open>Properties of path normalisation\<close>

















text \<open>
  C8. \<open>OakGame/Content/Foo/Bar.uasset\<close> is normalised to \<open>Game/Foo/Bar.uasset\<close>: the content
  pattern matches with first part \<open>OakGame\<close>, which the override table maps to \<open>Game\<close>.
\<close>

theorem normalize_oakgame_content:
  "re_normalize_content ''OakGame/Content/Foo/Bar.uasset''
     = Some ([], ''OakGame'', ''Foo/Bar.uasset'')
   \<and> map_of content_firstpart_overrides ''OakGame'' = Some ''Game''
   \<and> normalize_filename ''OakGame/Content/Foo/Bar.uasset'' = ''Game/Foo/Bar.uasset''"
  by code_simp




section \<open>Properties of archive descriptors\<close>

lemma bit_length_le: "m < 2 ^ k \<Longrightarrow> bit_length m \<le> k"
proof (induction k arbitrary: m)
  case 0
  then show ?case by (simp add: bit_length.simps [of m])
next
  case (Suc k)
  show ?case
  proof (cases "m \<le> 0")
    case True
    then show ?thesis by (simp add: bit_length.simps [of m])
  next
    case False
    from Suc.prems have "m div 2 < 2 ^ k" by simp
    from Suc.IH [OF this] False show ?thesis by (simp add: bit_length.simps [of m])
  qed
qed

lemma bit_length_lower: "0 < m \<Longrightarrow> 2 ^ (bit_length m - 1) \<le> m"
proof (induction m rule: bit_length.induct)
  case (1 n)
  show ?case
  proof (cases "n div 2 \<le> 0")
    case True
    with "1.prems" have "n = 1" by linarith
    then show ?thesis by (simp add: bit_length.simps [of 1] bit_length.simps [of 0])
  next
    case False
    then have pos: "0 < n div 2" by simp
    with "1.IH" "1.prems" have ih: "2 ^ (bit_length (n div 2) - 1) \<le> n div 2" by simp
    from pos have bl: "bit_length (n div 2) = Suc (bit_length (n div 2 div 2))"
      by (simp add: bit_length.simps [of "n div 2"])
    have "bit_length n = Suc (bit_length (n div 2))"
      using "1.prems" by (simp add: bit_length.simps [of n])
    then have "(2::int) ^ (bit_length n - 1) = 2 * 2 ^ (bit_length (n div 2) - 1)"
      using bl by simp
    also have "\<dots> \<le> 2 * (n div 2)" using ih by simp
    also have "\<dots> \<le> n" by simp
    finally show ?thesis .
  qed
qed

lemma round53_exact: "m < 2 ^ 53 \<Longrightarrow> round53 m = m"
  using bit_length_le [of m 53] by (simp add: round53_def)

lemma round53_large:
  assumes "2 ^ 52 \<le> m"
  shows "2 ^ 52 \<le> round53 m"
proof (cases "bit_length m \<le> 53")
  case True
  with assms show ?thesis by (simp add: round53_def)
next
  case False
  define sh where "sh = bit_length m - 53"
  define q where "q = m div 2 ^ sh"
  from False have e: "bit_length m - 1 = 52 + sh" by (simp add: sh_def)
  from assms have "0 < m" by (smt (verit) zero_less_power)
  from bit_length_lower [OF this] e have "2 ^ (52 + sh) \<le> m" by simp
  then have "(2 ^ 52 * 2 ^ sh) div 2 ^ sh \<le> m div (2 ^ sh :: int)"
    by (intro zdiv_mono1) (simp_all add: power_add)
  then have q52: "2 ^ 52 \<le> q" by (simp add: q_def)
  have p1: "(1::int) \<le> 2 ^ sh" by simp
  have "2 ^ 52 \<le> q * 1" using q52 by simp
  also have "\<dots> \<le> q * 2 ^ sh" using q52 p1 by (intro mult_left_mono) auto
  finally have a: "2 ^ 52 \<le> q * 2 ^ sh" .
  have "q * 2 ^ sh \<le> (q + 1) * 2 ^ sh" by (simp add: algebra_simps)
  with a have b: "2 ^ 52 \<le> (q + 1) * 2 ^ sh" by linarith
  from False a b show ?thesis
    by (simp add: round53_def Let_def sh_def [symmetric] q_def [symmetric])
qed

lemma float_add_half_small: "k < 2 ^ 52 \<Longrightarrow> float_add_half k = of_int k + 1 / 2"
proof -
  assume "k < 2 ^ 52"
  then have "2 * k + 1 < 2 ^ 53" by simp
  from round53_exact [OF this] show ?thesis
    by (simp add: float_add_half_def field_simps)
qed

lemma half_not_int: "(of_int k :: rat) + 1 / 2 \<noteq> of_int j"
proof
  assume "(of_int k :: rat) + 1 / 2 = of_int j"
  then have "(of_int (2 * k + 1) :: rat) = of_int (2 * j)" by (simp add: field_simps)
  then have "2 * k + 1 = 2 * j" by (simp only: of_int_eq_iff)
  then show False by presburger
qed

lemma float_add_half_large:
  assumes "2 ^ 52 \<le> k"
  shows "2 ^ 51 \<le> float_add_half k"
proof -
  from assms have "2 ^ 52 \<le> 2 * k + 1" by simp
  from round53_large [OF this] have "(of_int (2 ^ 52) :: rat) \<le> of_int (round53 (2 * k + 1))"
    by (simp only: of_int_le_iff)
  then show ?thesis by (simp add: float_add_half_def)
qed

lemma optional_paknum_not_audio:
  assumes "float_of_int n = Inr k" and "j \<in> audio_nums"
  shows "float_add_half k \<noteq> of_int j"
proof (cases "n < 2 ^ 52")
  case True
  then have "n < 2 ^ 53" by simp
  with assms(1) round53_exact [of n] have "k = n" by (simp add: float_of_int_def split: if_splits)
  with True float_add_half_small [of k] half_not_int [of k j] show ?thesis by simp
next
  case False
  then have "2 ^ 52 \<le> round53 n" by (intro round53_large) simp
  with assms(1) have "2 ^ 52 \<le> k" by (simp add: float_of_int_def split: if_splits)
  from float_add_half_large [OF this] have "(2 ^ 51 :: rat) \<le> float_add_half k" .
  moreover from assms(2) have "j \<le> 53" by (auto simp: audio_nums_def)
  then have "(of_int j :: rat) \<le> 53" by (metis of_int_le_iff of_int_numeral)
  ultimately show ?thesis by auto
qed

lemma PakFile_init_fields:
  assumes "PakFile_init sz name = Inr pf" and "re_pak name = Some (d, g, opt, p)"
  shows "patchnum pf = (case p of Some x \<Rightarrow> int_of_digits x | None \<Rightarrow> - 1)"
    and "\<not> opt \<Longrightarrow> paknum pf = of_int (int_of_digits g)"
    and "opt \<Longrightarrow> \<exists>k. float_of_int (int_of_digits g) = Inr k \<and> paknum pf = float_add_half k"
    and "filename pf = name"
  using assms
  by (auto simp: PakFile_init_def Let_def split: if_splits sum.splits option.splits)

lemma basename_part_whole:
  assumes "take (length s - length (basename_part s)) s = []"
  shows "basename_part s = s"
proof -
  have le: "length (basename_part s) \<le> length s"
    by (simp add: basename_part_def) (metis length_rev length_takeWhile_le)
  with assms have "length (takeWhile (\<lambda>c. \<not> is_sep c) (rev s)) = length (rev s)"
    by (cases "s = []") (auto simp: basename_part_def)
  then have "takeWhile (\<lambda>c. \<not> is_sep c) (rev s) = rev s"
    by (metis append_eq_conv_conj append_self_conv takeWhile_dropWhile_id)
  then show ?thesis unfolding basename_part_def by (metis rev_rev_ident)
qed

lemma re_pak_without_prefix:
  assumes "re_pak name = Some (None, grp)"
  shows "pak_name name = Some grp"
proof -
  from assms have "take (length name - length (basename_part name)) name = []"
    by (auto simp: re_pak_def Let_def split: if_splits)
  from basename_part_whole [OF this] assms show ?thesis
    by (auto simp: re_pak_def Let_def split: if_splits)
qed

text \<open>
  The class of \<open>paksort.py\<close> orders as the one of \<open>unpack_wl.py\<close> does: on a name without
  directory prefix that both accept, its \<open>paknum\<close> is the same and its \<open>patchnum\<close> is one
  more, so it is \<open>0\<close>, not \<open>-1\<close>, for a name without patch suffix.
\<close>

lemma paksort_fields:
  assumes "PakFile_init sz name = Inr pf" and "paksort_init name = Inr ps"
    and "re_pak name = Some (None, g, opt, p)"
  shows "ps_paknum ps = paknum pf \<and> ps_patchnum ps = patchnum pf + 1"
  using assms re_pak_without_prefix [OF assms(3)]
  by (auto simp: PakFile_init_def paksort_init_def Let_def
      split: if_splits sum.splits option.splits)

lemma paksort_lt_agrees:
  assumes "PakFile_init sz name = Inr pf" and "paksort_init name = Inr ps"
    and "re_pak name = Some (None, g, opt, p)"
    and "PakFile_init sz' name' = Inr pf'" and "paksort_init name' = Inr ps'"
    and "re_pak name' = Some (None, g', opt', p')"
  shows "paksort_lt ps ps' \<longleftrightarrow> PakFile_lt pf pf'"
  using paksort_fields [OF assms(1,2,3)] paksort_fields [OF assms(4,5,6)]
  by (auto simp: paksort_lt_def PakFile_lt_def)

lemma paksort_patchnum_without_suffix:
  assumes "paksort_init name = Inr ps" and "pak_name name = Some (g, opt, None)"
  shows "ps_patchnum ps = 0"
  using assms
  by (auto simp: paksort_init_def Let_def split: if_splits sum.splits option.splits)

text \<open>
  C3 (as amended). For a file name that is parsed, \<open>is_audio_only\<close> holds exactly when the
  name does not carry \<open>optional\<close> and its datagroup number is in the audio set: the test
  is on \<open>paknum\<close>, which for an optional archive is not the datagroup number.
\<close>

theorem is_audio_only_iff:
  assumes "PakFile_init sz name = Inr pf" and "re_pak name = Some (d, g, opt, p)"
  shows "is_audio_only pf \<longleftrightarrow> \<not> opt \<and> int_of_digits g \<in> audio_nums"
proof (cases opt)
  case True
  from PakFile_init_fields(3) [OF assms True] obtain k
    where k: "float_of_int (int_of_digits g) = Inr k" "paknum pf = float_add_half k" by blast
  with optional_paknum_not_audio [OF k(1)] True show ?thesis
    by (auto simp: is_audio_only_def)
next
  case False
  from PakFile_init_fields(2) [OF assms False] False show ?thesis
    by (auto simp: is_audio_only_def)
qed

theorem is_audio_only_iff_witness:
  "PakFile_init (Some 1024) ''Paks/pakchunk48-WindowsNoEditor_3_P.pak''
     = Inr \<lparr>filename = ''Paks/pakchunk48-WindowsNoEditor_3_P.pak'', paknum = 48,
            patchnum = 3, size = 1024\<rparr>
   \<and> re_pak ''Paks/pakchunk48-WindowsNoEditor_3_P.pak'' = Some (Some ''Paks/'', ''48'', False, Some ''3'')
   \<and> (is_audio_only \<lparr>filename = ''Paks/pakchunk48-WindowsNoEditor_3_P.pak'', paknum = 48,
                      patchnum = 3, size = 1024\<rparr>
        \<longleftrightarrow> \<not> False \<and> int_of_digits ''48'' \<in> audio_nums)
   \<and> int_of_digits ''48'' \<in> audio_nums"
proof -
  let ?n = "''Paks/pakchunk48-WindowsNoEditor_3_P.pak''"
  let ?pf = "\<lparr>filename = ?n, paknum = 48, patchnum = 3, size = 1024\<rparr>"
  have h1: "PakFile_init (Some 1024) ?n = Inr ?pf" by code_simp
  have h2: "re_pak ?n = Some (Some ''Paks/'', ''48'', False, Some ''3'')" by code_simp
  have h3: "int_of_digits ''48'' \<in> audio_nums" by code_simp
  from is_audio_only_iff [OF h1 h2] h1 h2 h3 show ?thesis by blast
qed

text \<open>
  The claim C3 as it is written fails on an optional archive of an audio datagroup:
  \<open>pakchunk2optional-WindowsNoEditor.pak\<close> has the datagroup number 2, which is in the audio
  set, and \<open>paknum\<close> 2.5, which is not.
\<close>

theorem is_audio_only_optional_counterexample:
  "PakFile_init (Some 0) ''pakchunk2optional-WindowsNoEditor.pak''
     = Inr \<lparr>filename = ''pakchunk2optional-WindowsNoEditor.pak'', paknum = 5 / 2,
            patchnum = - 1, size = 0\<rparr>
   \<and> re_pak ''pakchunk2optional-WindowsNoEditor.pak'' = Some (None, ''2'', True, None)
   \<and> int_of_digits ''2'' \<in> audio_nums
   \<and> \<not> is_audio_only \<lparr>filename = ''pakchunk2optional-WindowsNoEditor.pak'', paknum = 5 / 2,
                        patchnum = - 1, size = 0\<rparr>"
  by code_simp






section \<open>Properties of listing and extraction\<close>

lemma extract_loop_unchecked:
  "truthy expected_filenames = None \<Longrightarrow>
   extract_loop expected_filenames lines n = Inr (n + confirmations lines)"
  by (induction lines arbitrary: n) (auto simp: confirmations_def split: option.splits)






text \<open>
  C10. An empty expected collection is treated as no expected collection: whatever the
  tool writes, the result is the same as without one, and it is never an error: every
  confirmation is counted, none is rejected, and no total is compared.
\<close>

theorem extract_empty_expected_as_none:
  "PakFile_extract (Some []) lines = PakFile_extract None lines
   \<and> PakFile_extract None lines = Inr (confirmations lines, None)"
proof -
  have e: "truthy (Some []) = None" and n: "truthy None = None" by (simp_all add: truthy_def)
  from extract_loop_unchecked [OF e, of lines 0] extract_loop_unchecked [OF n, of lines 0]
  show ?thesis by (simp add: PakFile_extract_def e n)
qed

lemma listing_loop_unbound:
  assumes "list_all (\<lambda>l. re_unpack_mount l = None) pre"
    and "re_unpack_mount line = None" and "re_unpack_file line = Some name"
  shows "listing_loop None filename_mapping (pre @ line # post) = Inl UnboundLocalError"
  using assms
  by (induction pre arbitrary: filename_mapping) (auto split: option.splits)

text \<open>
  C7. If a file line (one that the file pattern matches and the mount pattern does not)
  comes before every mount line of the output, listing fails: it returns an error, here
  the \<open>UnboundLocalError\<close> for \<open>mountpoint\<close>, and no mapping.
\<close>

theorem file_line_before_mount_fails:
  assumes "list_all (\<lambda>l. re_unpack_mount l = None) pre"
    and "re_unpack_mount line = None" and "re_unpack_file line = Some name"
  shows "get_filename_mapping (pre @ line # post) = Inl UnboundLocalError"
  using listing_loop_unbound [OF assms] by (simp add: get_filename_mapping_def)

theorem file_line_before_mount_fails_witness:
  "list_all (\<lambda>l. re_unpack_mount l = None) [summary_line]
   \<and> re_unpack_mount (file_line ''Foo/Bar.uasset'') = None
   \<and> re_unpack_file (file_line ''Foo/Bar.uasset'') = Some ''Foo/Bar.uasset''
   \<and> get_filename_mapping
        ([summary_line] @ file_line ''Foo/Bar.uasset''
           # [mount_line ''../../../OakGame/Content/'', file_line ''Foo/Baz.uasset''])
       = Inl UnboundLocalError"
proof -
  have h1: "list_all (\<lambda>l. re_unpack_mount l = None) [summary_line]" by code_simp
  have h2: "re_unpack_mount (file_line ''Foo/Bar.uasset'') = None" by code_simp
  have h3: "re_unpack_file (file_line ''Foo/Bar.uasset'') = Some ''Foo/Bar.uasset''"
    by code_simp
  from file_line_before_mount_fails [OF h1 h2 h3] h1 h2 h3 show ?thesis by blast
qed

lemma listing_after_mount_example:
  "get_filename_mapping
     [mount_line ''../../../OakGame/Content/'', file_line ''Foo/Bar.uasset'',
      mount_line ''/'', file_line ''Engine/Plugins/Gbx/Content/Baz.uasset'']
   = Inr [(''Foo/Bar.uasset'', ''Game/Foo/Bar.uasset''),
          (''Engine/Plugins/Gbx/Content/Baz.uasset'', ''Gbx/Baz.uasset'')]"
  by code_simp

section \<open>Properties of the merge\<close>




lemma same_kind_cases: "same_kind a b \<Longrightarrow> (\<exists>x y. a = Dir x \<and> b = Dir y) \<or> (\<exists>x y. a = File x \<and> b = File y)"
  by (cases a; cases b) simp_all




lemma lookup_append:
  "lookup node (p @ q) = (case lookup node p of None \<Rightarrow> None | Some n \<Rightarrow> lookup n q)"
proof (induction p arbitrary: node)
  case Nil
  then show ?case by simp
next
  case (Cons a p)
  then show ?case by (cases node) (auto split: option.splits)
qed










lemma walk_append:
  "walk fs cur (a @ b) = (case walk fs cur a of Inl e \<Rightarrow> Inl e | Inr q \<Rightarrow> walk fs q b)"
proof (induction a arbitrary: cur)
  case Nil
  show ?case
  proof (cases "lookup fs cur")
    case None
    then show ?thesis by (cases b) simp_all
  next
    case (Some n)
    then show ?thesis by simp
  qed
next
  case (Cons s a)
  then show ?case by simp
qed

lemma split_path_nonempty: "split_path s \<noteq> []"
  by (cases s) (auto split: list.splits)

lemma split_path_append:
  "split_path (a @ CHR ''/'' # b) = split_path a @ split_path b"
proof (induction a)
  case Nil
  then show ?case by simp
next
  case (Cons c a)
  with split_path_nonempty [of a] show ?case by (cases "split_path a") auto
qed

text \<open>
  Under an empty directory no relative path name that starts with a name exists: such are
  the raw names of a listing.
\<close>

lemma plain_name_not_staged:
  assumes "resolve fs temp_folder = Inr tp" and "lookup fs tp = Some (Dir [])"
    and "last temp_folder \<noteq> CHR ''/''"
    and "split_path temp_filename = s # segs"
    and "s \<noteq> []" and "s \<noteq> ''.''" and "s \<noteq> ''..''"
  shows "\<not> path_exists fs (path_join temp_folder temp_filename)"
proof -
  from assms(1) have ne: "temp_folder \<noteq> []" and w: "walk fs [] (split_path temp_folder) = Inr tp"
    by (auto simp: resolve_def split: if_splits)
  from assms(4,5) have "\<not> prefix ''/'' temp_filename"
    by (cases temp_filename) (auto split: if_splits)
  with ne assms(3) have j: "path_join temp_folder temp_filename = temp_folder @ CHR ''/'' # temp_filename"
    by (simp add: path_join_def)
  from assms(2) have "lookup fs (tp @ [s]) = None" by (simp add: lookup_append)
  with assms(5,6,7) have "\<exists>e. walk fs tp (s # segs) = Inl e" by simp
  with w assms(4)
  have "\<exists>e. walk fs [] (split_path (temp_folder @ CHR ''/'' # temp_filename)) = Inl e"
    by (simp add: split_path_append walk_append)
  with j show ?thesis by (auto simp: path_exists_def resolve_def)
qed






end
